theory Spec2Isabelle
  imports Main
begin

section \<open>JavaScript values\<close>

text \<open>
  A JavaScript value of type \<open>string | undefined\<close> is a \<open>string option\<close>:
  \<open>None\<close> is \<open>undefined\<close> (or an absent property). The source tests such values for
  truthiness (\<open>if (error)\<close>, \<open>a || b\<close>, \<open>!x\<close>): \<open>undefined\<close> and the empty string
  are falsy.
\<close>

definition truthy :: "string option \<Rightarrow> bool" where
  "truthy v = (case v of None \<Rightarrow> False | Some s \<Rightarrow> s \<noteq> [])"

text \<open>\<open>a || b\<close> on two such values.\<close>

definition or_else :: "string option \<Rightarrow> string option \<Rightarrow> string option" where
  "or_else a b = (if truthy a then a else b)"

text \<open>
  Errors thrown by the source: \<open>new Error(message)\<close>, \<open>new AuthenticationError(error,
  error_description, state, appState)\<close>, and the \<open>TypeError\<close> the runtime raises when a
  property of \<open>undefined\<close> is read. The external collaborators (token endpoint, ID token
  verifier) fail with values of the same type.
\<close>

datatype error =
    Error string
  | AuthenticationError string "string option" "string option" "string option"
  | TypeError string

text \<open>The error classes of the specification, as the source raises them.\<close>

definition ParseError :: error where
  "ParseError = Error ''There are no query params available for parsing.''"

definition InvalidStateError :: error where
  "InvalidStateError = Error ''Invalid state''"

definition ConfigurationError :: error where
  "ConfigurationError =
     Error ''It is invalid to set both the `federated` and `localOnly` options to `true`''"

section \<open>Scopes\<close>

text \<open>\<open>String.prototype.split\<close> on a one-character separator.\<close>

fun split_on :: "char \<Rightarrow> string \<Rightarrow> string list" where
  "split_on c [] = [[]]"
| "split_on c (x # xs) =
     (if x = c then [] # split_on c xs
      else (case split_on c xs of [] \<Rightarrow> [[x]] | w # ws \<Rightarrow> (x # w) # ws))"

definition scope_names :: "string \<Rightarrow> string list" where
  "scope_names s = filter (\<lambda>w. w \<noteq> []) (split_on (CHR '' '') s)"

fun join_scope :: "string list \<Rightarrow> string" where
  "join_scope [] = []"
| "join_scope [w] = w"
| "join_scope (w # v # ws) = w @ '' '' @ join_scope (v # ws)"

text \<open>Keeps the first occurrence of every element, in order.\<close>

definition dedupe :: "'a list \<Rightarrow> 'a list" where
  "dedupe xs = rev (remdups (rev xs))"

definition defined_scopes :: "string option list \<Rightarrow> string list" where
  "defined_scopes scopes =
     concat (map (\<lambda>v. case v of None \<Rightarrow> [] | Some s \<Rightarrow> [s]) scopes)"

text \<open>
  Modelled from the spec: \<open>getUniqueScopes\<close> of \<open>./scope\<close>, which is not among the
  sources. The specification calls it the ordered-unique union of its arguments with
  duplicates removed; arguments that are \<open>undefined\<close> contribute nothing. The result is the
  space-separated string of the scope names in order of first occurrence.
\<close>

definition getUniqueScopes :: "string option list \<Rightarrow> string" where
  "getUniqueScopes scopes =
     join_scope (dedupe (concat (map scope_names (defined_scopes scopes))))"

text \<open>
  Modelled from the spec: the constant \<open>DEFAULT_SCOPE\<close> of \<open>./constants\<close>; the
  specification's example gives the default scope as \<open>openid profile email\<close>.
\<close>

definition DEFAULT_SCOPE :: string where
  "DEFAULT_SCOPE = ''openid profile email''"

section \<open>Data model\<close>

record decoded_token =
  dt_user :: string
  dt_claims :: string

text \<open>
  A cache entry as the orchestrator builds it. Every field but \<open>client_id\<close> may be
  missing: \<open>getTokenSilently\<close> saves \<open>{client_id, ...authResult}\<close> whatever
  \<open>authResult\<close> is.
\<close>

record cache_entry =
  ce_client_id :: string
  ce_audience :: "string option"
  ce_scope :: "string option"
  ce_access_token :: "string option"
  ce_refresh_token :: "string option"
  ce_id_token :: "string option"
  ce_expires_in :: "nat option"
  ce_decodedToken :: "decoded_token option"

text \<open>The response of the token endpoint.\<close>

record token_response =
  tr_access_token :: "string option"
  tr_refresh_token :: "string option"
  tr_id_token :: "string option"
  tr_expires_in :: "nat option"

text \<open>The request \<open>oauthToken\<close> sends to the token endpoint.\<close>

record token_options =
  to_baseUrl :: string
  to_client_id :: string
  to_grant_type :: string
  to_code :: "string option"
  to_code_verifier :: "string option"
  to_refresh_token :: "string option"
  to_redirect_uri :: "string option"
  to_custom :: "(string \<times> string) list"

record verify_args =
  va_iss :: string
  va_aud :: string
  va_id_token :: "string option"
  va_nonce :: "string option"
  va_leeway :: "nat option"
  va_max_age :: "nat option"

record query_result =
  qr_state :: "string option"
  qr_code :: "string option"
  qr_error :: "string option"
  qr_error_description :: "string option"

record transaction =
  tx_nonce :: string
  tx_code_verifier :: string
  tx_appState :: "string option"
  tx_scope :: string
  tx_audience :: string
  tx_redirect_uri :: "string option"

text \<open>
  \<open>Auth0ClientOptions\<close>. \<open>max_age\<close> is taken as a number: the coercion of
  \<open>_parseNumber\<close> only feeds the ID token verifier, which is external.
\<close>

record client_options =
  co_domain :: string
  co_issuer :: "string option"
  co_client_id :: string
  co_redirect_uri :: "string option"
  co_leeway :: "nat option"
  co_max_age :: "nat option"
  co_scope :: "string option"
  co_audience :: "string option"
  co_useRefreshTokens :: bool
  co_advanced_defaultScope :: "string option"

text \<open>The fields of an \<open>Auth0Client\<close> instance that the constructor sets.\<close>

record client =
  options :: client_options
  this_scope :: "string option"
  defaultScope :: string
  domainUrl :: string
  tokenIssuer :: string

definition new_Auth0Client :: "client_options \<Rightarrow> client" where
  "new_Auth0Client opts =
     (let durl = ''https://'' @ co_domain opts in
      \<lparr> options = opts,
        this_scope =
          (if co_useRefreshTokens opts
           then Some (getUniqueScopes [co_scope opts, Some ''offline_access''])
           else co_scope opts),
        defaultScope =
          getUniqueScopes [Some ''openid'',
            (case co_advanced_defaultScope opts of
               None \<Rightarrow> Some DEFAULT_SCOPE
             | Some d \<Rightarrow> Some d)],
        domainUrl = durl,
        tokenIssuer =
          (case co_issuer opts of
             None \<Rightarrow> durl @ ''/''
           | Some i \<Rightarrow> if i = [] then durl @ ''/'' else ''https://'' @ i @ ''/'') \<rparr>)"

section \<open>The stores and the lock\<close>

text \<open>Calls that leave the client: the cross-tab lock, the token endpoint, navigation.\<close>

datatype event =
    AcquireLock string nat
  | ReleaseLock string
  | TokenRequest token_options
  | Navigate string

type_synonym cache_key = "string \<times> string option \<times> string option"

record cache_record =
  cr_entry :: cache_entry
  cr_expiresAt :: nat

text \<open>
  The mutable state the client works on: the Credential Cache, the Transaction Store, the
  key-value \<open>ClientStorage\<close> that holds the Authenticated Flag, the lock keys this client
  holds, the log of external calls, and the clock (seconds).
\<close>

record client_state =
  cache :: "cache_key \<rightharpoonup> cache_record"
  transactions :: "string \<rightharpoonup> transaction"
  storage :: "string \<rightharpoonup> bool"
  held :: "string set"
  calls :: "event list"
  now :: nat

text \<open>
  Modelled from the spec: the Credential Cache (\<open>./cache\<close>, not among the sources). It
  persists records keyed by \<open>(client_id, audience, scope)\<close>; a read takes a grace window
  and treats a record that expires within it as missing; \<open>clear\<close> deletes every record.
  A record's absolute expiry is the time of the write plus \<open>expires_in\<close>.
\<close>

definition key_of :: "cache_entry \<Rightarrow> cache_key" where
  "key_of e = (ce_client_id e, ce_audience e, ce_scope e)"

definition cache_save :: "cache_entry \<Rightarrow> client_state \<Rightarrow> client_state" where
  "cache_save e s =
     s\<lparr> cache := (cache s)(key_of e \<mapsto>
          \<lparr> cr_entry = e,
            cr_expiresAt = now s + (case ce_expires_in e of None \<Rightarrow> 0 | Some n \<Rightarrow> n) \<rparr>) \<rparr>"

definition cache_get :: "client_state \<Rightarrow> cache_key \<Rightarrow> nat \<Rightarrow> cache_entry option" where
  "cache_get s k grace =
     (case cache s k of
        None \<Rightarrow> None
      | Some r \<Rightarrow> if now s + grace < cr_expiresAt r then Some (cr_entry r) else None)"

definition cache_clear :: "client_state \<Rightarrow> client_state" where
  "cache_clear s = s\<lparr> cache := Map.empty \<rparr>"

text \<open>
  Modelled from the spec: the Transaction Store (\<open>./transaction-manager\<close>, not among the
  sources): one transaction per \<open>state\<close> key, read by \<open>get\<close>, deleted by \<open>remove\<close>.
  A callback without a \<open>state\<close> finds no transaction.
\<close>

definition transaction_get :: "client_state \<Rightarrow> string option \<Rightarrow> transaction option" where
  "transaction_get s st = (case st of None \<Rightarrow> None | Some k \<Rightarrow> transactions s k)"

definition transaction_remove :: "string option \<Rightarrow> client_state \<Rightarrow> client_state" where
  "transaction_remove st s =
     (case st of None \<Rightarrow> s | Some k \<Rightarrow> s\<lparr> transactions := (transactions s)(k := None) \<rparr>)"

text \<open>
  Modelled from the spec: \<open>ClientStorage\<close> (\<open>./storage\<close>, not among the sources), the
  key-value persistence of the Authenticated Flag.
\<close>

definition IS_AUTHENTICATED :: string where
  "IS_AUTHENTICATED = ''auth0.is.authenticated''"

definition ClientStorage_save :: "string \<Rightarrow> bool \<Rightarrow> client_state \<Rightarrow> client_state" where
  "ClientStorage_save k v s = s\<lparr> storage := (storage s)(k \<mapsto> v) \<rparr>"

definition ClientStorage_remove :: "string \<Rightarrow> client_state \<Rightarrow> client_state" where
  "ClientStorage_remove k s = s\<lparr> storage := (storage s)(k := None) \<rparr>"

definition GET_TOKEN_SILENTLY_LOCK_KEY :: string where
  "GET_TOKEN_SILENTLY_LOCK_KEY = ''auth0.lock.getTokenSilently''"

text \<open>
  The lock of \<open>browser-tabs-lock\<close>. \<open>acquireLock\<close> resolves to \<open>false\<close> when the lock
  cannot be taken within the timeout; the source ignores that result, so the caller goes
  on in both cases and only the set of held keys differs. \<open>releaseLock\<close> gives the key up
  if it is held.
\<close>

definition acquireLock :: "bool \<Rightarrow> string \<Rightarrow> nat \<Rightarrow> client_state \<Rightarrow> client_state" where
  "acquireLock available k timeout s =
     s\<lparr> held := (if available then insert k (held s) else held s),
        calls := calls s @ [AcquireLock k timeout] \<rparr>"

definition releaseLock :: "string \<Rightarrow> client_state \<Rightarrow> client_state" where
  "releaseLock k s = s\<lparr> held := held s - {k}, calls := calls s @ [ReleaseLock k] \<rparr>"

text \<open>
  The external collaborators, taken as parameters: the token endpoint behind
  \<open>oauthToken\<close>, the ID token verifier, the query-string parser of \<open>./utils\<close>, the
  browser's \<open>window.location.origin\<close>, whether the cross-tab lock can be taken, and the
  URL helpers \<open>_url\<close> and \<open>createQueryParams\<close> that only build strings.
\<close>

record env =
  oauthToken :: "token_options \<Rightarrow> error + token_response"
  verifyIdToken :: "verify_args \<Rightarrow> error + decoded_token"
  parseQueryResult :: "string \<Rightarrow> query_result"
  origin :: string
  lock_available :: bool
  url_of :: "string \<Rightarrow> string"
  createQueryParams :: "(string \<times> string) list \<Rightarrow> string"

definition call_oauthToken ::
  "env \<Rightarrow> token_options \<Rightarrow> client_state \<Rightarrow> (error + token_response) \<times> client_state" where
  "call_oauthToken ev t s = (oauthToken ev t, s\<lparr> calls := calls s @ [TokenRequest t] \<rparr>)"

definition verify_id_token ::
  "env \<Rightarrow> client \<Rightarrow> string option \<Rightarrow> string option \<Rightarrow> error + decoded_token" where
  "verify_id_token ev cl id_token nonce =
     verifyIdToken ev
       \<lparr> va_iss = tokenIssuer cl,
         va_aud = co_client_id (options cl),
         va_id_token = id_token,
         va_nonce = nonce,
         va_leeway = co_leeway (options cl),
         va_max_age = co_max_age (options cl) \<rparr>"

section \<open>Silent token acquisition\<close>

text \<open>
  \<open>GetTokenSilentlyOptions\<close>. A field that is \<open>None\<close> is a property the caller did
  not pass. \<open>gts_custom\<close> holds the pass-through properties.
\<close>

record gts_options =
  gts_ignoreCache :: "bool option"
  gts_audience :: "string option"
  gts_scope :: "string option"
  gts_redirect_uri :: "string option"
  gts_timeoutInSeconds :: "nat option"
  gts_custom :: "(string \<times> string) list"

text \<open>
  What \<open>authResult\<close> can hold in \<open>getTokenSilently\<close>: the credential draft the refresh
  grant returns, \<open>undefined\<close> (the grant's bare \<open>return\<close>), or the object made by
  \<open>Error('Could not refresh token')\<close>, which is built but not thrown.
\<close>

datatype auth_result =
    Draft cache_entry
  | Undefined
  | ErrorObject string

text \<open>
  \<open>{client_id: this.options.client_id, ...authResult}\<close>. Spreading \<open>undefined\<close> adds
  nothing, and neither does spreading an \<open>Error\<close> object, whose \<open>message\<close> and
  \<open>stack\<close> are not enumerable. The draft of the refresh grant has no \<open>client_id\<close> of
  its own, so the client's stays.
\<close>

definition bare_entry :: "string \<Rightarrow> cache_entry" where
  "bare_entry cid =
     \<lparr> ce_client_id = cid, ce_audience = None, ce_scope = None, ce_access_token = None,
       ce_refresh_token = None, ce_id_token = None, ce_expires_in = None,
       ce_decodedToken = None \<rparr>"

definition spread_authResult :: "string \<Rightarrow> auth_result \<Rightarrow> cache_entry" where
  "spread_authResult cid a =
     (case a of
        Draft d \<Rightarrow> d\<lparr> ce_client_id := cid \<rparr>
      | Undefined \<Rightarrow> bare_entry cid
      | ErrorObject m \<Rightarrow> bare_entry cid)"

text \<open>\<open>authResult.access_token\<close>: reading a property of \<open>undefined\<close> throws.\<close>

definition undefined_access_token :: error where
  "undefined_access_token = TypeError ''Cannot read property access_token of undefined''"

definition authResult_access_token :: "auth_result \<Rightarrow> error + string option" where
  "authResult_access_token a =
     (case a of
        Draft d \<Rightarrow> Inr (ce_access_token d)
      | Undefined \<Rightarrow> Inl undefined_access_token
      | ErrorObject m \<Rightarrow> Inr None)"

text \<open>
  The key of the cache read in \<open>_getTokenUsingRefreshToken\<close>, after its first
  statement has set \<open>options.scope\<close> to the union of the default scope, the scope of the
  client's options and the scope it was called with.
\<close>

definition refresh_cache_key :: "client \<Rightarrow> gts_options \<Rightarrow> cache_key" where
  "refresh_cache_key cl opts =
     (co_client_id (options cl),
      or_else (gts_audience opts) (Some ''default''),
      Some (getUniqueScopes
              [Some (defaultScope cl), co_scope (options cl), gts_scope opts]))"

text \<open>
  The request of the refresh-token grant: the redirect URI is the call's, else the
  client's, else the page's origin; the pass-through options go along.
\<close>

definition refresh_request :: "env \<Rightarrow> client \<Rightarrow> gts_options \<Rightarrow> cache_entry \<Rightarrow> token_options" where
  "refresh_request ev cl opts c =
     \<lparr> to_baseUrl = domainUrl cl,
       to_client_id = co_client_id (options cl),
       to_grant_type = ''refresh_token'',
       to_code = None,
       to_code_verifier = None,
       to_refresh_token = ce_refresh_token c,
       to_redirect_uri =
         or_else (gts_redirect_uri opts)
           (or_else (co_redirect_uri (options cl)) (Some (origin ev))),
       to_custom = gts_custom opts \<rparr>"

text \<open>
  \<open>_getTokenUsingRefreshToken\<close>. Without a cached record or without a refresh token
  in it, it returns \<open>undefined\<close>. The entry it returns otherwise spreads the token
  response and then sets \<open>decodedToken\<close>, \<open>scope\<close> and \<open>audience\<close>; the response
  carries no \<open>client_id\<close>, which the caller adds.
\<close>

definition getTokenUsingRefreshToken ::
  "env \<Rightarrow> client \<Rightarrow> gts_options \<Rightarrow> client_state \<Rightarrow> (error + auth_result) \<times> client_state"
where
  "getTokenUsingRefreshToken ev cl opts s =
     (let k = refresh_cache_key cl opts;
          found = cache_get s k 0 in
      case found of
        None \<Rightarrow> (Inr Undefined, s)
      | Some c \<Rightarrow>
          if \<not> truthy (ce_refresh_token c) then (Inr Undefined, s)
          else
           (let (res, s1) = call_oauthToken ev (refresh_request ev cl opts c) s
            in case res of
                 Inl e \<Rightarrow> (Inl e, s1)
               | Inr tokenResult \<Rightarrow>
                   (case verify_id_token ev cl (tr_id_token tokenResult) None of
                      Inl e \<Rightarrow> (Inl e, s1)
                    | Inr decodedToken \<Rightarrow>
                        (Inr (Draft
                           \<lparr> ce_client_id = co_client_id (options cl),
                             ce_audience = or_else (gts_audience opts) (Some ''default''),
                             ce_scope = snd (snd k),
                             ce_access_token = tr_access_token tokenResult,
                             ce_refresh_token = tr_refresh_token tokenResult,
                             ce_id_token = tr_id_token tokenResult,
                             ce_expires_in = tr_expires_in tokenResult,
                             ce_decodedToken = Some decodedToken \<rparr>), s1))))"

text \<open>
  The options after the first statement of \<open>getTokenSilently\<close>: the client's audience
  unless the call passes one, and the union of the default, the client's and the call's
  scope; \<open>ignoreCache\<close> is taken out.
\<close>

definition getTokenOptions :: "client \<Rightarrow> gts_options \<Rightarrow> gts_options" where
  "getTokenOptions cl opts =
     opts\<lparr> gts_ignoreCache := None,
           gts_audience :=
             (case gts_audience opts of
                None \<Rightarrow> co_audience (options cl)
              | Some a \<Rightarrow> Some a),
           gts_scope :=
             Some (getUniqueScopes [Some (defaultScope cl), this_scope cl, gts_scope opts]) \<rparr>"

text \<open>
  The read of the refresh grant finds no usable refresh token: no record under its key,
  or a record whose \<open>refresh_token\<close> is falsy.
\<close>

definition no_cached_refresh_token :: "client \<Rightarrow> gts_options \<Rightarrow> client_state \<Rightarrow> bool" where
  "no_cached_refresh_token cl opts s =
     (case cache_get s (refresh_cache_key cl (getTokenOptions cl opts)) 0 of
        None \<Rightarrow> True
      | Some c \<Rightarrow> \<not> truthy (ce_refresh_token c))"

definition ignoreCache_of :: "gts_options \<Rightarrow> bool" where
  "ignoreCache_of opts = (case gts_ignoreCache opts of None \<Rightarrow> False | Some b \<Rightarrow> b)"

text \<open>The key of the cache read at the head of \<open>getTokenSilently\<close>.\<close>

definition getTokenSilently_cache_key :: "client \<Rightarrow> gts_options \<Rightarrow> cache_key" where
  "getTokenSilently_cache_key cl opts =
     (co_client_id (options cl),
      or_else (gts_audience (getTokenOptions cl opts)) (Some ''default''),
      gts_scope (getTokenOptions cl opts))"

text \<open>
  The cache read of the \<open>try\<close> block: the access token of a record that is more than
  60 seconds from expiry, when the record has a truthy one.
\<close>

definition cached_access_token :: "client \<Rightarrow> gts_options \<Rightarrow> client_state \<Rightarrow> string option" where
  "cached_access_token cl opts s =
     (if ignoreCache_of opts then None
      else
        (case cache_get s (getTokenSilently_cache_key cl opts) 60 of
           None \<Rightarrow> None
         | Some c \<Rightarrow> if truthy (ce_access_token c) then ce_access_token c else None))"

text \<open>The body of the \<open>try\<close> block.\<close>

definition getTokenSilently_try ::
  "env \<Rightarrow> client \<Rightarrow> gts_options \<Rightarrow> client_state \<Rightarrow> (error + string option) \<times> client_state"
where
  "getTokenSilently_try ev cl opts s =
     (case cached_access_token cl opts s of
        Some tok \<Rightarrow> (Inr (Some tok), s)
      | None \<Rightarrow>
         (let s1 = acquireLock (lock_available ev) GET_TOKEN_SILENTLY_LOCK_KEY 5000 s;
              (res, s2) =
                (if co_useRefreshTokens (options cl) \<and> \<not> truthy (gts_audience opts)
                 then getTokenUsingRefreshToken ev cl (getTokenOptions cl opts) s1
                 else (Inr (ErrorObject ''Could not refresh token''), s1))
          in case res of
               Inl e \<Rightarrow> (Inl e, s2)
             | Inr authResult \<Rightarrow>
                 let s3 = cache_save (spread_authResult (co_client_id (options cl)) authResult) s2;
                     s4 = ClientStorage_save IS_AUTHENTICATED True s3
                 in (authResult_access_token authResult, s4)))"

text \<open>
  \<open>getTokenSilently\<close>: the \<open>catch\<close> clause rethrows, and the \<open>finally\<close> clause releases
  the lock after the \<open>try\<close> block, however the block ends.
\<close>

definition getTokenSilently ::
  "env \<Rightarrow> client \<Rightarrow> gts_options \<Rightarrow> client_state \<Rightarrow> (error + string option) \<times> client_state"
where
  "getTokenSilently ev cl opts s =
     (let (res, s') = getTokenSilently_try ev cl opts s
      in (res, releaseLock GET_TOKEN_SILENTLY_LOCK_KEY s'))"

section \<open>Reading the user and the claims\<close>

text \<open>
  \<open>GetUserOptions\<close> and \<open>GetIdTokenClaimsOptions\<close> have the same two fields. The
  argument is \<open>None\<close> when the caller passes no options object; the parameter's default
  then applies.
\<close>

record read_options =
  ro_audience :: "string option"
  ro_scope :: "string option"

definition default_read_options :: "client \<Rightarrow> read_options" where
  "default_read_options cl =
     \<lparr> ro_audience = or_else (co_audience (options cl)) (Some ''default''),
       ro_scope = or_else (this_scope cl) (Some (defaultScope cl)) \<rparr>"

definition read_options_of :: "client \<Rightarrow> read_options option \<Rightarrow> read_options" where
  "read_options_of cl arg = (case arg of None \<Rightarrow> default_read_options cl | Some ro \<Rightarrow> ro)"

text \<open>The key \<open>{client_id: this.options.client_id, ...options}\<close> of \<open>getUser\<close>.\<close>

definition getUser_cache_key :: "client \<Rightarrow> read_options option \<Rightarrow> cache_key" where
  "getUser_cache_key cl arg =
     (let ro = read_options_of cl arg in
      (co_client_id (options cl),
       ro_audience ro,
       Some (getUniqueScopes [Some (defaultScope cl), ro_scope ro])))"

definition getUser :: "client \<Rightarrow> read_options option \<Rightarrow> client_state \<Rightarrow> string option" where
  "getUser cl arg s =
     (case cache_get s (getUser_cache_key cl arg) 0 of
        None \<Rightarrow> None
      | Some c \<Rightarrow>
          (case ce_decodedToken c of None \<Rightarrow> None | Some d \<Rightarrow> Some (dt_user d)))"

text \<open>The key of \<open>getIdTokenClaims\<close>.\<close>

definition getIdTokenClaims_cache_key :: "client \<Rightarrow> read_options option \<Rightarrow> cache_key" where
  "getIdTokenClaims_cache_key cl arg =
     (let ro = read_options_of cl arg in
      (co_client_id (options cl),
       ro_audience ro,
       Some (getUniqueScopes [Some (defaultScope cl), this_scope cl, ro_scope ro])))"

definition getIdTokenClaims ::
  "client \<Rightarrow> read_options option \<Rightarrow> client_state \<Rightarrow> string option" where
  "getIdTokenClaims cl arg s =
     (case cache_get s (getIdTokenClaims_cache_key cl arg) 0 of
        None \<Rightarrow> None
      | Some c \<Rightarrow>
          (case ce_decodedToken c of None \<Rightarrow> None | Some d \<Rightarrow> Some (dt_claims d)))"

section \<open>Redirect callback\<close>

text \<open>\<open>url.split('?').slice(1)\<close>.\<close>

definition queryStringFragments :: "string \<Rightarrow> string list" where
  "queryStringFragments url = tl (split_on (CHR ''?'') url)"

text \<open>
  The \<open>tokenOptions\<close> of the authorization-code exchange. \<open>redirect_uri\<close> is set only
  when the transaction recorded one.
\<close>

definition code_exchange_request :: "client \<Rightarrow> query_result \<Rightarrow> transaction \<Rightarrow> token_options" where
  "code_exchange_request cl q tx =
     \<lparr> to_baseUrl = domainUrl cl,
       to_client_id = co_client_id (options cl),
       to_grant_type = ''authorization_code'',
       to_code = qr_code q,
       to_code_verifier = Some (tx_code_verifier tx),
       to_refresh_token = None,
       to_redirect_uri = tx_redirect_uri tx,
       to_custom = [] \<rparr>"

text \<open>
  The part of \<open>handleRedirectCallback\<close> after the \<open>error\<close> check: the transaction
  is removed, the code is exchanged, the ID token is verified against the transaction's
  nonce, the entry is cached and the Authenticated Flag is set. The result is the
  \<open>appState\<close> of the \<open>{appState: transaction.appState}\<close> the source returns.
\<close>

definition exchange_code ::
  "env \<Rightarrow> client \<Rightarrow> query_result \<Rightarrow> transaction \<Rightarrow> client_state
     \<Rightarrow> (error + string option) \<times> client_state"
where
  "exchange_code ev cl q tx s =
     (let s1 = transaction_remove (qr_state q) s;
          (res, s2) = call_oauthToken ev (code_exchange_request cl q tx) s1
      in case res of
           Inl e \<Rightarrow> (Inl e, s2)
         | Inr authResult \<Rightarrow>
             (case verify_id_token ev cl (tr_id_token authResult) (Some (tx_nonce tx)) of
                Inl e \<Rightarrow> (Inl e, s2)
              | Inr decodedToken \<Rightarrow>
                  let s3 = cache_save
                             \<lparr> ce_client_id = co_client_id (options cl),
                               ce_audience = Some (tx_audience tx),
                               ce_scope = Some (tx_scope tx),
                               ce_access_token = tr_access_token authResult,
                               ce_refresh_token = tr_refresh_token authResult,
                               ce_id_token = tr_id_token authResult,
                               ce_expires_in = tr_expires_in authResult,
                               ce_decodedToken = Some decodedToken \<rparr> s2;
                      s4 = ClientStorage_save IS_AUTHENTICATED True s3
                  in (Inr (tx_appState tx), s4)))"

text \<open>
  \<open>handleRedirectCallback\<close>. The test \<open>if (error)\<close> holds for a non-empty \<open>error\<close>;
  an absent or empty one goes on to the exchange.
\<close>

definition handleRedirectCallback ::
  "env \<Rightarrow> client \<Rightarrow> string \<Rightarrow> client_state \<Rightarrow> (error + string option) \<times> client_state"
where
  "handleRedirectCallback ev cl url s =
     (if queryStringFragments url = [] then (Inl ParseError, s)
      else
        let q = parseQueryResult ev (concat (queryStringFragments url)) in
        case transaction_get s (qr_state q) of
          None \<Rightarrow> (Inl InvalidStateError, s)
        | Some tx \<Rightarrow>
            (case qr_error q of
               None \<Rightarrow> exchange_code ev cl q tx s
             | Some e \<Rightarrow>
                 if e = [] then exchange_code ev cl q tx s
                 else
                   (Inl (AuthenticationError e (qr_error_description q) (qr_state q)
                           (tx_appState tx)),
                    transaction_remove (qr_state q) s)))"

section \<open>Logout\<close>

text \<open>
  \<open>LogoutOptions\<close>. \<open>client_id\<close> may be absent, \<open>null\<close> or a string, and the source
  tells the three apart.
\<close>

datatype nullable = Absent | Null | Str string

record logout_options =
  lo_client_id :: nullable
  lo_federated :: bool
  lo_localOnly :: bool
  lo_logoutFromNative :: bool
  lo_custom :: "(string \<times> string) list"

text \<open>
  The first statement of \<open>logout\<close>: \<open>client_id\<close> becomes the client's unless the caller
  gave a truthy one, and is deleted when the caller gave \<open>null\<close>. The result is the
  \<open>logoutOptions\<close> that go into the query string.
\<close>

definition logoutOptions :: "client \<Rightarrow> logout_options \<Rightarrow> (string \<times> string) list" where
  "logoutOptions cl opts =
     (case lo_client_id opts of
        Null \<Rightarrow> lo_custom opts
      | Absent \<Rightarrow> (''client_id'', co_client_id (options cl)) # lo_custom opts
      | Str c \<Rightarrow>
          (''client_id'', if c = [] then co_client_id (options cl) else c) # lo_custom opts)"

definition logout ::
  "env \<Rightarrow> client \<Rightarrow> logout_options \<Rightarrow> client_state \<Rightarrow> (error + string option) \<times> client_state"
where
  "logout ev cl opts s =
     (if lo_localOnly opts \<and> lo_federated opts then (Inl ConfigurationError, s)
      else
        let s1 = cache_clear s;
            s2 = ClientStorage_remove IS_AUTHENTICATED s1
        in if lo_localOnly opts then (Inr None, s2)
           else
             let url = url_of ev (''/v2/logout?'' @ createQueryParams ev (logoutOptions cl opts));
                 logoutUrl = url @ (if lo_federated opts then ''&federated'' else [])
             in if lo_logoutFromNative opts then (Inr (Some logoutUrl), s2)
                else (Inr None, s2\<lparr> calls := calls s2 @ [Navigate logoutUrl] \<rparr>))"

section \<open>Observing one call\<close>

text \<open>The external calls made between two states.\<close>

definition calls_during :: "client_state \<Rightarrow> client_state \<Rightarrow> event list" where
  "calls_during s s' = drop (length (calls s)) (calls s')"

fun is_acquire :: "event \<Rightarrow> bool" where
  "is_acquire (AcquireLock k t) = True"
| "is_acquire e = False"

fun is_release :: "event \<Rightarrow> bool" where
  "is_release (ReleaseLock k) = True"
| "is_release e = False"

fun is_token_request :: "event \<Rightarrow> bool" where
  "is_token_request (TokenRequest t) = True"
| "is_token_request e = False"

definition authenticated_flag :: "client_state \<Rightarrow> bool" where
  "authenticated_flag s = (storage s IS_AUTHENTICATED = Some True)"

section \<open>Credential Records\<close>

text \<open>
  The data model lists \<open>access_token\<close> among the fields of a Credential Record and
  marks only \<open>refresh_token\<close> optional: a cache record is a Credential Record when it
  holds a non-empty access token.
\<close>

definition is_credential_record :: "cache_record \<Rightarrow> bool" where
  "is_credential_record rec = truthy (ce_access_token (cr_entry rec))"

text \<open>
  Every record stored under a key that names an audience is a Credential Record. The
  records the client stores without an access token are the bare \<open>{client_id}\<close>
  entries of \<open>getTokenSilently\<close>, whose key has neither audience nor scope.
\<close>

definition credential_cache :: "client_state \<Rightarrow> bool" where
  "credential_cache s =
     (\<forall>k rec. cache s k = Some rec \<longrightarrow> fst (snd k) \<noteq> None \<longrightarrow> is_credential_record rec)"

text \<open>Every successful response of the token endpoint carries an access token.\<close>

definition grants_access_tokens :: "env \<Rightarrow> bool" where
  "grants_access_tokens ev =
     (\<forall>t resp. oauthToken ev t = Inr resp \<longrightarrow> truthy (tr_access_token resp))"

section \<open>Example configuration\<close>

text \<open>
  A client without refresh tokens, one with refresh tokens, and one with a configured
  scope; a token endpoint that rejects an authorization-code exchange without a code and
  answers every other request; a verifier that accepts; a query-string parser given by
  its values on three callback queries.
\<close>

definition example_options :: client_options where
  "example_options =
     \<lparr> co_domain = ''tenant.example'', co_issuer = None, co_client_id = ''cid'',
       co_redirect_uri = None, co_leeway = None, co_max_age = None, co_scope = None,
       co_audience = None, co_useRefreshTokens = False, co_advanced_defaultScope = None \<rparr>"

definition client_plain :: client where
  "client_plain = new_Auth0Client example_options"

definition client_refresh :: client where
  "client_refresh = new_Auth0Client (example_options\<lparr> co_useRefreshTokens := True \<rparr>)"

definition client_scoped :: client where
  "client_scoped = new_Auth0Client (example_options\<lparr> co_scope := Some ''read:orders'' \<rparr>)"

definition no_opts :: gts_options where
  "no_opts =
     \<lparr> gts_ignoreCache = None, gts_audience = None, gts_scope = None,
       gts_redirect_uri = None, gts_timeoutInSeconds = None, gts_custom = [] \<rparr>"

definition example_response :: token_response where
  "example_response =
     \<lparr> tr_access_token = Some ''at2'', tr_refresh_token = Some ''rt2'',
       tr_id_token = Some ''id2'', tr_expires_in = Some 86400 \<rparr>"

definition example_decoded :: decoded_token where
  "example_decoded = \<lparr> dt_user = ''alice'', dt_claims = ''sub=alice'' \<rparr>"

definition example_endpoint :: "token_options \<Rightarrow> error + token_response" where
  "example_endpoint t =
     (if to_grant_type t = ''authorization_code''
      then (case to_code t of
              None \<Rightarrow> Inl (Error ''invalid_request'')
            | Some c \<Rightarrow> Inr example_response)
      else Inr example_response)"

definition no_query :: query_result where
  "no_query = \<lparr> qr_state = None, qr_code = None, qr_error = None,
       qr_error_description = None \<rparr>"

definition example_parser :: "string \<Rightarrow> query_result" where
  "example_parser qs =
     (if qs = ''state=xyz&code=abc''
      then no_query\<lparr> qr_state := Some ''xyz'', qr_code := Some ''abc'' \<rparr>
      else if qs = ''state=xyz&error=access_denied&error_description=denied''
      then no_query\<lparr> qr_state := Some ''xyz'', qr_error := Some ''access_denied'',
                      qr_error_description := Some ''denied'' \<rparr>
      else if qs = ''state=xyz&error=''
      then no_query\<lparr> qr_state := Some ''xyz'', qr_error := Some [] \<rparr>
      else no_query)"

definition example_env :: env where
  "example_env =
     \<lparr> oauthToken = example_endpoint,
       verifyIdToken = (\<lambda>a. Inr example_decoded),
       parseQueryResult = example_parser,
       origin = ''https://app.example'',
       lock_available = True,
       url_of = (\<lambda>path. ''https://tenant.example'' @ path),
       createQueryParams = (\<lambda>ps. concat (map (\<lambda>(k, v). k @ ''='' @ v) ps)) \<rparr>"

definition failing_env :: env where
  "failing_env = example_env\<lparr> oauthToken := (\<lambda>t. Inl (Error ''invalid_grant'')) \<rparr>"

definition empty_state :: client_state where
  "empty_state =
     \<lparr> cache = Map.empty, transactions = Map.empty, storage = Map.empty,
       held = {}, calls = [], now = 1000 \<rparr>"

definition fresh_entry :: cache_entry where
  "fresh_entry =
     \<lparr> ce_client_id = ''cid'', ce_audience = Some ''default'',
       ce_scope = Some ''openid profile email'', ce_access_token = Some ''at1'',
       ce_refresh_token = None, ce_id_token = Some ''id1'', ce_expires_in = Some 86400,
       ce_decodedToken = Some example_decoded \<rparr>"

text \<open>A state whose cache holds a record that expires a day from now.\<close>

definition hit_state :: client_state where
  "hit_state = cache_save fresh_entry empty_state"

text \<open>A record for the refresh client's key that expires in 30 seconds.\<close>

definition stale_state :: client_state where
  "stale_state =
     cache_save
       (fresh_entry\<lparr> ce_scope := Some ''openid profile email offline_access'',
                      ce_refresh_token := Some ''rt1'', ce_expires_in := Some 30 \<rparr>)
       empty_state"

definition example_transaction :: transaction where
  "example_transaction =
     \<lparr> tx_nonce = ''n1'', tx_code_verifier = ''v1'', tx_appState = Some ''/dashboard'',
       tx_scope = ''openid profile email'', tx_audience = ''default'',
       tx_redirect_uri = Some ''https://app.example/cb'' \<rparr>"

text \<open>A state with one live transaction, keyed by the state \<open>xyz\<close>.\<close>

definition callback_state :: client_state where
  "callback_state = empty_state\<lparr> transactions := [''xyz'' \<mapsto> example_transaction] \<rparr>"

definition code_url :: string where
  "code_url = ''https://app.example/cb?state=xyz&code=abc''"

definition error_url :: string where
  "error_url = ''https://app.example/cb?state=xyz&error=access_denied&error_description=denied''"

definition empty_error_url :: string where
  "empty_error_url = ''https://app.example/cb?state=xyz&error=''"

definition both_flags :: logout_options where
  "both_flags =
     \<lparr> lo_client_id = Absent, lo_federated = True, lo_localOnly = True,
       lo_logoutFromNative = False, lo_custom = [] \<rparr>"

text \<open>
  The scoped client after a token for \<open>write:orders\<close> has been cached under the key
  \<open>getTokenSilently\<close> uses, and the options that ask for the same scope.
\<close>

definition orders_opts :: gts_options where
  "orders_opts = no_opts\<lparr> gts_scope := Some ''write:orders'' \<rparr>"

definition orders_read :: read_options where
  "orders_read = \<lparr> ro_audience = Some ''default'', ro_scope = Some ''write:orders'' \<rparr>"

definition orders_state :: client_state where
  "orders_state =
     cache_save
       (fresh_entry\<lparr> ce_scope := Some ''openid profile email read:orders write:orders'' \<rparr>)
       empty_state"

text \<open>A logged-in state: a cached record and the Authenticated Flag set.\<close>

definition session_state :: client_state where
  "session_state = ClientStorage_save IS_AUTHENTICATED True hit_state"

definition audience_opts :: gts_options where
  "audience_opts = no_opts\<lparr> gts_audience := Some ''https://api.example'' \<rparr>"

text \<open>
  A record for the refresh client's key that expires in 30 seconds and holds no refresh
  token.
\<close>

definition norefresh_state :: client_state where
  "norefresh_state =
     cache_save
       (fresh_entry\<lparr> ce_scope := Some ''openid profile email offline_access'',
                      ce_expires_in := Some 30 \<rparr>)
       empty_state"

section \<open>Evaluation of the examples\<close>

lemma client_plain_eval:
  "client_plain =
     \<lparr> options = example_options, this_scope = None,
       defaultScope = ''openid profile email'', domainUrl = ''https://tenant.example'',
       tokenIssuer = ''https://tenant.example/'' \<rparr>"
  by code_simp

lemma client_refresh_eval:
  "client_refresh =
     \<lparr> options = example_options\<lparr> co_useRefreshTokens := True \<rparr>,
       this_scope = Some ''offline_access'',
       defaultScope = ''openid profile email'', domainUrl = ''https://tenant.example'',
       tokenIssuer = ''https://tenant.example/'' \<rparr>"
  by code_simp

lemma client_scoped_eval:
  "client_scoped =
     \<lparr> options = example_options\<lparr> co_scope := Some ''read:orders'' \<rparr>,
       this_scope = Some ''read:orders'',
       defaultScope = ''openid profile email'', domainUrl = ''https://tenant.example'',
       tokenIssuer = ''https://tenant.example/'' \<rparr>"
  by code_simp

lemma plain_key:
  "getTokenSilently_cache_key client_plain no_opts =
     (''cid'', Some ''default'', Some ''openid profile email'')"
  by code_simp

lemma refresh_key:
  "getTokenSilently_cache_key client_refresh no_opts =
     (''cid'', Some ''default'', Some ''openid profile email offline_access'')"
  by code_simp

lemma refresh_grant_key:
  "refresh_cache_key client_refresh (getTokenOptions client_refresh no_opts) =
     (''cid'', Some ''default'', Some ''openid profile email offline_access'')"
  by code_simp

lemma scoped_key:
  "getTokenSilently_cache_key client_scoped orders_opts =
     (''cid'', Some ''default'', Some ''openid profile email read:orders write:orders'')"
  by code_simp

lemma scoped_claims_key:
  "getIdTokenClaims_cache_key client_scoped (Some orders_read) =
     (''cid'', Some ''default'', Some ''openid profile email read:orders write:orders'')"
  by code_simp

lemma scoped_user_key:
  "getUser_cache_key client_scoped (Some orders_read) =
     (''cid'', Some ''default'', Some ''openid profile email write:orders'')"
  by code_simp

lemma no_opts_use_cache: "\<not> ignoreCache_of no_opts"
  by (simp add: ignoreCache_of_def no_opts_def)

lemma no_opts_audience: "\<not> truthy (gts_audience no_opts)"
  by (simp add: no_opts_def truthy_def)

lemma refresh_options: "co_useRefreshTokens (options client_refresh)"
  by (simp add: client_refresh_eval)

lemma plain_options: "\<not> co_useRefreshTokens (options client_plain)"
  by (simp add: client_plain_eval example_options_def)


lemma plain_miss: "cached_access_token client_plain no_opts empty_state = None"
  by (simp add: cached_access_token_def cache_get_def plain_key empty_state_def)

lemma refresh_miss: "cached_access_token client_refresh no_opts empty_state = None"
  by (simp add: cached_access_token_def cache_get_def refresh_key empty_state_def)

lemma plain_hit: "cached_access_token client_plain no_opts hit_state = Some ''at1''"
  by (simp add: cached_access_token_def cache_get_def plain_key hit_state_def
      cache_save_def key_of_def fresh_entry_def empty_state_def no_opts_use_cache
      truthy_def)

lemma hit_record:
  "cache hit_state (''cid'', Some ''default'', Some ''openid profile email'') =
     Some \<lparr> cr_entry = fresh_entry, cr_expiresAt = 87400 \<rparr>"
  by (simp add: hit_state_def cache_save_def key_of_def fresh_entry_def empty_state_def)

lemma hit_now: "now hit_state = 1000"
  by (simp add: hit_state_def cache_save_def empty_state_def)

lemma refresh_nothing_cached: "no_cached_refresh_token client_refresh no_opts empty_state"
  by (simp add: no_cached_refresh_token_def cache_get_def refresh_grant_key empty_state_def)

lemma code_url_query: "concat (queryStringFragments code_url) = ''state=xyz&code=abc''"
  by code_simp

lemma error_url_query:
  "concat (queryStringFragments error_url) =
     ''state=xyz&error=access_denied&error_description=denied''"
  by code_simp

lemma empty_error_url_query:
  "concat (queryStringFragments empty_error_url) = ''state=xyz&error=''"
  by code_simp

lemma url_fragments:
  "queryStringFragments code_url \<noteq> []"
  "queryStringFragments error_url \<noteq> []"
  "queryStringFragments empty_error_url \<noteq> []"
  by code_simp+

lemma parsed_code:
  "parseQueryResult example_env (concat (queryStringFragments code_url)) =
     no_query\<lparr> qr_state := Some ''xyz'', qr_code := Some ''abc'' \<rparr>"
  by (simp add: code_url_query example_env_def example_parser_def)

lemma parsed_error:
  "parseQueryResult example_env (concat (queryStringFragments error_url)) =
     no_query\<lparr> qr_state := Some ''xyz'', qr_error := Some ''access_denied'',
               qr_error_description := Some ''denied'' \<rparr>"
  by (simp add: error_url_query example_env_def example_parser_def)

lemma parsed_empty_error:
  "parseQueryResult example_env (concat (queryStringFragments empty_error_url)) =
     no_query\<lparr> qr_state := Some ''xyz'', qr_error := Some [] \<rparr>"
  by (simp add: empty_error_url_query example_env_def example_parser_def)

lemma live_transaction: "transactions callback_state ''xyz'' = Some example_transaction"
  by (simp add: callback_state_def)

lemma endpoint_fails: "oauthToken failing_env t = Inl (Error ''invalid_grant'')"
  by (simp add: failing_env_def)

lemma code_exchange_ok:
  "oauthToken example_env
     (code_exchange_request client_plain
        (no_query\<lparr> qr_state := Some ''xyz'', qr_code := Some ''abc'' \<rparr>) example_transaction) =
   Inr example_response"
  by (simp add: example_env_def example_endpoint_def code_exchange_request_def no_query_def)

lemma verify_ok: "verify_id_token example_env cl t n = Inr example_decoded"
  by (simp add: verify_id_token_def example_env_def)

section \<open>Silent token acquisition: the paths\<close>

lemma calls_try:
  "\<exists>mid. calls (snd (getTokenSilently_try ev cl opts s)) = calls s @ mid"
  by (auto simp: getTokenSilently_try_def getTokenUsingRefreshToken_def acquireLock_def
      cache_save_def ClientStorage_save_def call_oauthToken_def Let_def
      split: option.splits sum.splits prod.splits if_splits)

lemma try_hit:
  "cached_access_token cl opts s = Some tok \<Longrightarrow>
   getTokenSilently_try ev cl opts s = (Inr (Some tok), s)"
  by (simp add: getTokenSilently_try_def)

lemma cached_hit:
  assumes "\<not> ignoreCache_of opts"
    and "cache s (getTokenSilently_cache_key cl opts) = Some rec"
    and "now s + 60 < cr_expiresAt rec"
    and "truthy (ce_access_token (cr_entry rec))"
  shows "cached_access_token cl opts s = ce_access_token (cr_entry rec)"
  using assms by (simp add: cached_access_token_def cache_get_def)

lemma truthy_Some: "truthy v \<Longrightarrow> \<exists>t. v = Some t"
  by (cases v) (simp_all add: truthy_def)

lemma cache_get_acquireLock: "cache_get (acquireLock a k t s) key g = cache_get s key g"
  by (simp add: cache_get_def acquireLock_def split: option.splits)

lemma refresh_grant_undefined:
  "no_cached_refresh_token cl opts s \<Longrightarrow>
   getTokenUsingRefreshToken ev cl (getTokenOptions cl opts) s = (Inr Undefined, s)"
  by (simp add: no_cached_refresh_token_def getTokenUsingRefreshToken_def
      split: option.splits)

lemma no_cached_refresh_token_acquireLock:
  "no_cached_refresh_token cl opts (acquireLock a k t s) = no_cached_refresh_token cl opts s"
  by (simp add: no_cached_refresh_token_def cache_get_acquireLock)

lemma refresh_grant_success:
  assumes "cache_get s (refresh_cache_key cl opts) 0 = Some c"
    and "truthy (ce_refresh_token c)"
    and "oauthToken ev (refresh_request ev cl opts c) = Inr resp"
    and "verify_id_token ev cl (tr_id_token resp) None = Inr dec"
  shows "\<exists>d. ce_access_token d = tr_access_token resp \<and>
     getTokenUsingRefreshToken ev cl opts s =
       (Inr (Draft d), s\<lparr> calls := calls s @ [TokenRequest (refresh_request ev cl opts c)] \<rparr>)"
  using assms by (simp add: getTokenUsingRefreshToken_def call_oauthToken_def)

lemma try_refresh_success:
  assumes "cached_access_token cl opts s = None"
    and "co_useRefreshTokens (options cl) \<and> \<not> truthy (gts_audience opts)"
    and "cache_get s (refresh_cache_key cl (getTokenOptions cl opts)) 0 = Some c"
    and "truthy (ce_refresh_token c)"
    and "oauthToken ev (refresh_request ev cl (getTokenOptions cl opts) c) = Inr resp"
    and "verify_id_token ev cl (tr_id_token resp) None = Inr dec"
  shows "fst (getTokenSilently_try ev cl opts s) = Inr (tr_access_token resp) \<and>
     calls (snd (getTokenSilently_try ev cl opts s)) =
       calls s @ [AcquireLock GET_TOKEN_SILENTLY_LOCK_KEY 5000,
                  TokenRequest (refresh_request ev cl (getTokenOptions cl opts) c)]"
proof -
  let ?s1 = "acquireLock (lock_available ev) GET_TOKEN_SILENTLY_LOCK_KEY 5000 s"
  have "cache_get ?s1 (refresh_cache_key cl (getTokenOptions cl opts)) 0 = Some c"
    using assms(3) by (simp add: cache_get_acquireLock)
  from refresh_grant_success[OF this assms(4,5,6)]
  obtain d where d: "ce_access_token d = tr_access_token resp"
    "getTokenUsingRefreshToken ev cl (getTokenOptions cl opts) ?s1 =
       (Inr (Draft d),
        ?s1\<lparr> calls := calls ?s1 @
          [TokenRequest (refresh_request ev cl (getTokenOptions cl opts) c)] \<rparr>)"
    by blast
  show ?thesis
    using assms(1,2) d
    by (simp add: getTokenSilently_try_def spread_authResult_def authResult_access_token_def
        cache_save_def ClientStorage_save_def)
      (simp add: acquireLock_def)
qed

lemma try_refresh_exchange_fails:
  assumes "cached_access_token cl opts s = None"
    and "co_useRefreshTokens (options cl) \<and> \<not> truthy (gts_audience opts)"
    and "cache_get s (refresh_cache_key cl (getTokenOptions cl opts)) 0 = Some c"
    and "truthy (ce_refresh_token c)"
    and "oauthToken ev (refresh_request ev cl (getTokenOptions cl opts) c) = Inl e"
  shows "fst (getTokenSilently_try ev cl opts s) = Inl e"
  using assms
  by (simp add: getTokenSilently_try_def getTokenUsingRefreshToken_def cache_get_acquireLock
      call_oauthToken_def Let_def)

text \<open>The state after the two writes that follow the refresh decision.\<close>

lemma try_inapplicable:
  assumes "cached_access_token cl opts s = None"
    and "\<not> (co_useRefreshTokens (options cl) \<and> \<not> truthy (gts_audience opts))"
  shows "getTokenSilently_try ev cl opts s =
     (Inr None,
      ClientStorage_save IS_AUTHENTICATED True
        (cache_save (bare_entry (co_client_id (options cl)))
           (acquireLock (lock_available ev) GET_TOKEN_SILENTLY_LOCK_KEY 5000 s)))"
proof -
  have "(if co_useRefreshTokens (options cl) \<and> \<not> truthy (gts_audience opts)
         then getTokenUsingRefreshToken ev cl (getTokenOptions cl opts)
                (acquireLock (lock_available ev) GET_TOKEN_SILENTLY_LOCK_KEY 5000 s)
         else (Inr (ErrorObject ''Could not refresh token''),
               acquireLock (lock_available ev) GET_TOKEN_SILENTLY_LOCK_KEY 5000 s)) =
        (Inr (ErrorObject ''Could not refresh token''),
         acquireLock (lock_available ev) GET_TOKEN_SILENTLY_LOCK_KEY 5000 s)"
    using assms(2) by (simp only: if_False)
  then show ?thesis
    using assms(1)
    by (simp add: getTokenSilently_try_def spread_authResult_def authResult_access_token_def
        Let_def)
qed

lemma try_no_refresh_token:
  assumes "cached_access_token cl opts s = None"
    and "co_useRefreshTokens (options cl) \<and> \<not> truthy (gts_audience opts)"
    and "no_cached_refresh_token cl opts s"
  shows "getTokenSilently_try ev cl opts s =
     (Inl undefined_access_token,
      ClientStorage_save IS_AUTHENTICATED True
        (cache_save (bare_entry (co_client_id (options cl)))
           (acquireLock (lock_available ev) GET_TOKEN_SILENTLY_LOCK_KEY 5000 s)))"
proof -
  have "getTokenUsingRefreshToken ev cl (getTokenOptions cl opts)
          (acquireLock (lock_available ev) GET_TOKEN_SILENTLY_LOCK_KEY 5000 s) =
        (Inr Undefined, acquireLock (lock_available ev) GET_TOKEN_SILENTLY_LOCK_KEY 5000 s)"
    using assms(3) by (simp add: refresh_grant_undefined no_cached_refresh_token_acquireLock)
  then show ?thesis
    using assms(1,2)
    by (simp add: getTokenSilently_try_def spread_authResult_def authResult_access_token_def)
qed

lemma bare_writes:
  "cache (ClientStorage_save IS_AUTHENTICATED True
            (cache_save (bare_entry cid) (acquireLock a k t s))) (cid, None, None) =
     Some \<lparr> cr_entry = bare_entry cid, cr_expiresAt = now s \<rparr>"
  "storage (ClientStorage_save IS_AUTHENTICATED True
            (cache_save (bare_entry cid) (acquireLock a k t s))) IS_AUTHENTICATED = Some True"
  by (simp_all add: ClientStorage_save_def cache_save_def acquireLock_def key_of_def
      bare_entry_def)

lemma releaseLock_keeps:
  "cache (releaseLock k s) = cache s" "storage (releaseLock k s) = storage s"
  "transactions (releaseLock k s) = transactions s" "now (releaseLock k s) = now s"
  by (simp_all add: releaseLock_def)

lemma getTokenSilently_try_eq:
  "getTokenSilently_try ev cl opts s = (r, t) \<Longrightarrow>
   getTokenSilently ev cl opts s = (r, releaseLock GET_TOKEN_SILENTLY_LOCK_KEY t)"
  by (simp add: getTokenSilently_def)

lemma stale_exchange_fails:
  "fst (getTokenSilently failing_env client_refresh no_opts stale_state) =
     Inl (Error ''invalid_grant'')"
proof -
  have rec: "cache stale_state
       (''cid'', Some ''default'', Some ''openid profile email offline_access'') =
     Some \<lparr> cr_entry = fresh_entry\<lparr> ce_scope := Some ''openid profile email offline_access'',
                      ce_refresh_token := Some ''rt1'', ce_expires_in := Some 30 \<rparr>,
            cr_expiresAt = 1030 \<rparr>"
    by (simp add: stale_state_def cache_save_def key_of_def fresh_entry_def empty_state_def)
  have nw: "now stale_state = 1000"
    by (simp add: stale_state_def cache_save_def empty_state_def)
  have miss: "cached_access_token client_refresh no_opts stale_state = None"
    by (simp add: cached_access_token_def cache_get_def refresh_key rec nw)
  have found: "cache_get stale_state
      (refresh_cache_key client_refresh (getTokenOptions client_refresh no_opts)) 0 =
      Some (fresh_entry\<lparr> ce_scope := Some ''openid profile email offline_access'',
                      ce_refresh_token := Some ''rt1'', ce_expires_in := Some 30 \<rparr>)"
    by (simp add: cache_get_def refresh_grant_key rec nw)
  from try_refresh_exchange_fails[OF miss _ found _ endpoint_fails] refresh_options
    no_opts_audience
  have "fst (getTokenSilently_try failing_env client_refresh no_opts stale_state) =
      Inl (Error ''invalid_grant'')"
    by (simp add: truthy_def)
  then show ?thesis
    by (simp add: getTokenSilently_def split_beta)
qed

section \<open>Redirect callback: the paths\<close>

lemma callback_error_step:
  assumes "queryStringFragments url \<noteq> []"
    and "parseQueryResult ev (concat (queryStringFragments url)) = q"
    and "qr_state q = Some st"
    and "transactions s st = Some tx"
    and "qr_error q = Some e"
    and "e \<noteq> []"
  shows "handleRedirectCallback ev cl url s =
     (Inl (AuthenticationError e (qr_error_description q) (Some st) (tx_appState tx)),
      s\<lparr> transactions := (transactions s)(st := None) \<rparr>)"
  using assms
  by (simp add: handleRedirectCallback_def transaction_get_def transaction_remove_def)

lemma exchange_code_success:
  assumes "qr_state q = Some st"
    and "oauthToken ev (code_exchange_request cl q tx) = Inr resp"
    and "verify_id_token ev cl (tr_id_token resp) (Some (tx_nonce tx)) = Inr dec"
    and "exchange_code ev cl q tx s = (r, s')"
  shows "r = Inr (tx_appState tx) \<and> transactions s' st = None"
  using assms
  by (auto simp: exchange_code_def call_oauthToken_def transaction_remove_def
      cache_save_def ClientStorage_save_def Let_def)

lemma callback_success_step:
  assumes "queryStringFragments url \<noteq> []"
    and "parseQueryResult ev (concat (queryStringFragments url)) = q"
    and "transactions s st = Some tx"
    and "qr_state q = Some st"
    and "\<not> truthy (qr_error q)"
  shows "handleRedirectCallback ev cl url s = exchange_code ev cl q tx s"
  using assms
  by (auto simp: handleRedirectCallback_def transaction_get_def truthy_def
      split: option.splits)

lemma callback_missing_transaction:
  assumes "queryStringFragments url \<noteq> []"
    and "parseQueryResult ev (concat (queryStringFragments url)) = q"
    and "qr_state q = Some st"
    and "transactions s st = None"
  shows "handleRedirectCallback ev cl url s = (Inl InvalidStateError, s)"
  using assms by (simp add: handleRedirectCallback_def transaction_get_def)

section \<open>Credential Records in the cache\<close>

text \<open>
  The operations keep the cache to Credential Records under every key that names an
  audience, as long as the token endpoint's successful responses carry an access token;
  so the record a cache read of \<open>getTokenSilently\<close> finds is a Credential Record.
\<close>

lemma credential_cache_empty: "cache s = Map.empty \<Longrightarrow> credential_cache s"
  by (simp add: credential_cache_def)

lemma credential_cache_save:
  assumes "credential_cache s"
    and "ce_audience e = None \<or> truthy (ce_access_token e)"
  shows "credential_cache (cache_save e s)"
  using assms
  by (auto simp: credential_cache_def cache_save_def key_of_def is_credential_record_def)

lemma credential_cache_cong:
  "cache s' = cache s \<Longrightarrow> credential_cache s' = credential_cache s"
  by (simp add: credential_cache_def)

lemma credential_cache_refresh:
  assumes "grants_access_tokens ev"
    and "getTokenUsingRefreshToken ev cl opts s = (Inr a, s')"
  shows "cache s' = cache s \<and>
         (case a of Draft d \<Rightarrow> truthy (ce_access_token d) | Undefined \<Rightarrow> True
          | ErrorObject m \<Rightarrow> True)"
  using assms
  by (auto simp: getTokenUsingRefreshToken_def call_oauthToken_def grants_access_tokens_def
      Let_def split: option.splits if_splits sum.splits)

lemma credential_cache_refresh_error:
  assumes "getTokenUsingRefreshToken ev cl opts s = (Inl e, s')"
  shows "cache s' = cache s"
  using assms
  by (auto simp: getTokenUsingRefreshToken_def call_oauthToken_def Let_def
      split: option.splits if_splits sum.splits)

lemma credential_cache_getTokenSilently:
  assumes "credential_cache s" and "grants_access_tokens ev"
  shows "credential_cache (snd (getTokenSilently ev cl opts s))"
proof (cases "cached_access_token cl opts s")
  case (Some tok)
  then show ?thesis
    using assms(1)
    by (simp add: getTokenSilently_def getTokenSilently_try_def
        credential_cache_cong[OF releaseLock_keeps(1)])
next
  case None
  let ?s1 = "acquireLock (lock_available ev) GET_TOKEN_SILENTLY_LOCK_KEY 5000 s"
  have s1: "credential_cache ?s1"
    using assms(1) by (simp add: credential_cache_def acquireLock_def)
  show ?thesis
  proof (cases "co_useRefreshTokens (options cl) \<and> \<not> truthy (gts_audience opts)")
    case False
    have "credential_cache (cache_save (bare_entry (co_client_id (options cl))) ?s1)"
      using s1 by (rule credential_cache_save) (simp add: bare_entry_def)
    then have "credential_cache (ClientStorage_save IS_AUTHENTICATED True
        (cache_save (bare_entry (co_client_id (options cl))) ?s1))"
      by (simp add: credential_cache_def ClientStorage_save_def)
    then show ?thesis
      using try_inapplicable[OF None False, of ev]
      by (simp add: getTokenSilently_def credential_cache_cong[OF releaseLock_keeps(1)])
  next
    case True
    obtain res s2 where run:
      "getTokenUsingRefreshToken ev cl (getTokenOptions cl opts) ?s1 = (res, s2)"
      by (cases "getTokenUsingRefreshToken ev cl (getTokenOptions cl opts) ?s1")
    show ?thesis
    proof (cases res)
      case (Inl e)
      then have "cache s2 = cache ?s1"
        using credential_cache_refresh_error run by blast
      then have "credential_cache s2"
        using s1 by (simp add: credential_cache_def)
      then show ?thesis
        using None True run Inl
        by (simp add: getTokenSilently_def getTokenSilently_try_def Let_def
            credential_cache_cong[OF releaseLock_keeps(1)])
    next
      case (Inr a)
      from credential_cache_refresh[OF assms(2)] run Inr
      have c: "cache s2 = cache ?s1"
        and a: "case a of Draft d \<Rightarrow> truthy (ce_access_token d) | Undefined \<Rightarrow> True
                | ErrorObject m \<Rightarrow> True"
        by blast+
      have s2: "credential_cache s2"
        using s1 c by (simp add: credential_cache_def)
      have "credential_cache (cache_save (spread_authResult (co_client_id (options cl)) a) s2)"
        using s2
      proof (rule credential_cache_save)
        show "ce_audience (spread_authResult (co_client_id (options cl)) a) = None \<or>
              truthy (ce_access_token (spread_authResult (co_client_id (options cl)) a))"
          using a by (cases a) (simp_all add: spread_authResult_def bare_entry_def)
      qed
      then have "credential_cache (ClientStorage_save IS_AUTHENTICATED True
          (cache_save (spread_authResult (co_client_id (options cl)) a) s2))"
        by (simp add: credential_cache_def ClientStorage_save_def)
      then show ?thesis
        using None True run Inr
        by (simp add: getTokenSilently_def getTokenSilently_try_def Let_def
            credential_cache_cong[OF releaseLock_keeps(1)])
    qed
  qed
qed

lemma credential_cache_exchange_code:
  assumes "credential_cache s" and "grants_access_tokens ev"
  shows "credential_cache (snd (exchange_code ev cl q tx s))"
proof -
  let ?s1 = "transaction_remove (qr_state q) s"
  have s1: "credential_cache
     (?s1\<lparr> calls := calls ?s1 @ [TokenRequest (code_exchange_request cl q tx)] \<rparr>)"
    using assms(1)
    by (simp add: credential_cache_def transaction_remove_def split: option.splits)
  show ?thesis
  proof (cases "oauthToken ev (code_exchange_request cl q tx)")
    case (Inl e)
    then show ?thesis
      using s1 by (simp add: exchange_code_def call_oauthToken_def Let_def)
  next
    case (Inr resp)
    then have t: "truthy (tr_access_token resp)"
      using assms(2) by (auto simp: grants_access_tokens_def)
    show ?thesis
    proof (cases "verify_id_token ev cl (tr_id_token resp) (Some (tx_nonce tx))")
      case (Inl e)
      then show ?thesis
        using s1 Inr by (simp add: exchange_code_def call_oauthToken_def Let_def)
    next
      case dec: (Inr d)
      have "credential_cache (cache_save
              \<lparr> ce_client_id = co_client_id (options cl),
                ce_audience = Some (tx_audience tx),
                ce_scope = Some (tx_scope tx),
                ce_access_token = tr_access_token resp,
                ce_refresh_token = tr_refresh_token resp,
                ce_id_token = tr_id_token resp,
                ce_expires_in = tr_expires_in resp,
                ce_decodedToken = Some d \<rparr>
              (?s1\<lparr> calls := calls ?s1 @ [TokenRequest (code_exchange_request cl q tx)] \<rparr>))"
        using s1 by (rule credential_cache_save) (simp add: t)
      then have "credential_cache (ClientStorage_save IS_AUTHENTICATED True (cache_save
              \<lparr> ce_client_id = co_client_id (options cl),
                ce_audience = Some (tx_audience tx),
                ce_scope = Some (tx_scope tx),
                ce_access_token = tr_access_token resp,
                ce_refresh_token = tr_refresh_token resp,
                ce_id_token = tr_id_token resp,
                ce_expires_in = tr_expires_in resp,
                ce_decodedToken = Some d \<rparr>
              (?s1\<lparr> calls := calls ?s1 @ [TokenRequest (code_exchange_request cl q tx)] \<rparr>)))"
        by (simp add: credential_cache_def ClientStorage_save_def)
      then show ?thesis
        using Inr dec
        by (simp add: exchange_code_def call_oauthToken_def Let_def)
    qed
  qed
qed

lemma credential_cache_handleRedirectCallback:
  assumes "credential_cache s" and "grants_access_tokens ev"
  shows "credential_cache (snd (handleRedirectCallback ev cl url s))"
  using assms credential_cache_exchange_code[OF assms, of cl]
  by (auto simp: handleRedirectCallback_def Let_def credential_cache_def
      transaction_remove_def split: option.splits)

lemma credential_cache_logout:
  assumes "credential_cache s"
  shows "credential_cache (snd (logout ev cl opts s))"
  using assms
  by (simp add: logout_def Let_def credential_cache_def cache_clear_def
      ClientStorage_remove_def)

lemma getTokenSilently_key_names_audience:
  "fst (snd (getTokenSilently_cache_key cl opts)) \<noteq> None"
  by (simp add: getTokenSilently_cache_key_def or_else_def truthy_def split: option.splits)

lemma credential_cache_read:
  assumes "credential_cache s"
    and "cache s (getTokenSilently_cache_key cl opts) = Some rec"
  shows "is_credential_record rec"
  using assms getTokenSilently_key_names_audience[of cl opts]
  by (cases "getTokenSilently_cache_key cl opts") (auto simp: credential_cache_def)

section \<open>The failure paths of silent token acquisition\<close>

text \<open>
  C1. A client without refresh tokens and an empty cache: \<open>getTokenSilently\<close> resolves
  to \<open>undefined\<close> and has set the Authenticated Flag. The same holds for a client with
  refresh tokens when the call passes an audience.
\<close>

theorem getTokenSilently_inapplicable_returns_undefined:
  "cached_access_token client_plain no_opts empty_state = None \<and>
   \<not> co_useRefreshTokens (options client_plain) \<and>
   fst (getTokenSilently example_env client_plain no_opts empty_state) = Inr None \<and>
   authenticated_flag (snd (getTokenSilently example_env client_plain no_opts empty_state)) \<and>
   cached_access_token client_refresh audience_opts empty_state = None \<and>
   truthy (gts_audience audience_opts) \<and>
   fst (getTokenSilently example_env client_refresh audience_opts empty_state) = Inr None"
proof -
  have a: "truthy (gts_audience audience_opts)"
    by (simp add: audience_opts_def truthy_def)
  have m: "cached_access_token client_refresh audience_opts empty_state = None"
    by (simp add: cached_access_token_def cache_get_def empty_state_def
        split: option.splits)
  have 1: "getTokenSilently example_env client_plain no_opts empty_state =
      (Inr None, releaseLock GET_TOKEN_SILENTLY_LOCK_KEY
         (ClientStorage_save IS_AUTHENTICATED True
           (cache_save (bare_entry (co_client_id (options client_plain)))
             (acquireLock (lock_available example_env) GET_TOKEN_SILENTLY_LOCK_KEY 5000
                empty_state))))"
    using plain_options
    by (intro getTokenSilently_try_eq try_inapplicable plain_miss) simp
  have 2: "getTokenSilently example_env client_refresh audience_opts empty_state =
      (Inr None, releaseLock GET_TOKEN_SILENTLY_LOCK_KEY
         (ClientStorage_save IS_AUTHENTICATED True
           (cache_save (bare_entry (co_client_id (options client_refresh)))
             (acquireLock (lock_available example_env) GET_TOKEN_SILENTLY_LOCK_KEY 5000
                empty_state))))"
    using a
    by (intro getTokenSilently_try_eq try_inapplicable m) simp
  show ?thesis
    using a m plain_miss plain_options
    by (simp add: 1 2 authenticated_flag_def releaseLock_keeps bare_writes)
qed

text \<open>
  C2. A client with refresh tokens and an empty cache: the refresh grant returns
  \<open>undefined\<close> and raises nothing, and \<open>getTokenSilently\<close> then throws a \<open>TypeError\<close>.
  The grant does the same when the record it finds holds no refresh token.
\<close>

theorem refresh_grant_without_token_returns_undefined:
  "cache empty_state (refresh_cache_key client_refresh (getTokenOptions client_refresh no_opts))
     = None \<and>
   getTokenUsingRefreshToken example_env client_refresh (getTokenOptions client_refresh no_opts)
     empty_state = (Inr Undefined, empty_state) \<and>
   fst (getTokenSilently example_env client_refresh no_opts empty_state) =
     Inl undefined_access_token \<and>
   map_option (\<lambda>c. ce_refresh_token (cr_entry c))
     (cache norefresh_state
        (refresh_cache_key client_refresh (getTokenOptions client_refresh no_opts))) = Some None \<and>
   getTokenUsingRefreshToken example_env client_refresh (getTokenOptions client_refresh no_opts)
     norefresh_state = (Inr Undefined, norefresh_state)"
proof -
  have n: "no_cached_refresh_token client_refresh no_opts norefresh_state"
    by (simp add: no_cached_refresh_token_def cache_get_def refresh_grant_key
        norefresh_state_def cache_save_def key_of_def fresh_entry_def empty_state_def truthy_def)
  have t: "getTokenSilently example_env client_refresh no_opts empty_state =
      (Inl undefined_access_token, releaseLock GET_TOKEN_SILENTLY_LOCK_KEY
         (ClientStorage_save IS_AUTHENTICATED True
           (cache_save (bare_entry (co_client_id (options client_refresh)))
             (acquireLock (lock_available example_env) GET_TOKEN_SILENTLY_LOCK_KEY 5000
                empty_state))))"
    using refresh_options no_opts_audience
    by (intro getTokenSilently_try_eq try_no_refresh_token refresh_miss
        refresh_nothing_cached) simp
  show ?thesis
    by (simp add: t refresh_grant_undefined[OF n] refresh_grant_undefined[OF refresh_nothing_cached]
        refresh_grant_key)
      (simp add: empty_state_def norefresh_state_def cache_save_def key_of_def fresh_entry_def)
qed




section \<open>The lock\<close>

text \<open>
  C3. Every execution of \<open>getTokenSilently\<close>, whatever the token endpoint and the
  verifier answer and whether it returns or throws, ends with the release of the
  cross-tab lock: the last external call is \<open>releaseLock\<close> on the lock key, and the key
  is not among the held ones afterwards.
\<close>

theorem getTokenSilently_releases_lock:
  "GET_TOKEN_SILENTLY_LOCK_KEY \<notin> held (snd (getTokenSilently ev cl opts s)) \<and>
   (\<exists>mid. calls (snd (getTokenSilently ev cl opts s)) =
      calls s @ mid @ [ReleaseLock GET_TOKEN_SILENTLY_LOCK_KEY])"
proof -
  obtain mid where m: "calls (snd (getTokenSilently_try ev cl opts s)) = calls s @ mid"
    using calls_try by blast
  show ?thesis
    using m by (simp add: getTokenSilently_def releaseLock_def split_beta)
qed

theorem getTokenSilently_releases_lock_witness:
  "fst (getTokenSilently failing_env client_refresh no_opts stale_state) =
     Inl (Error ''invalid_grant'') \<and>
   GET_TOKEN_SILENTLY_LOCK_KEY \<notin>
     held (snd (getTokenSilently failing_env client_refresh no_opts stale_state)) \<and>
   (\<exists>mid. calls (snd (getTokenSilently failing_env client_refresh no_opts stale_state)) =
      calls stale_state @ mid @ [ReleaseLock GET_TOKEN_SILENTLY_LOCK_KEY])"
  using getTokenSilently_releases_lock[of failing_env client_refresh no_opts stale_state]
    stale_exchange_fails
  by simp

text \<open>
  C10. When \<open>getTokenSilently\<close> returns through the cache hit, the calls it made are
  one \<open>releaseLock\<close> and no \<open>acquireLock\<close>.
\<close>

theorem cache_hit_releases_without_acquire:
  assumes "cached_access_token cl opts s = Some tok"
    and "getTokenSilently ev cl opts s = (r, s')"
  shows "r = Inr (Some tok) \<and>
     filter is_release (calls_during s s') = [ReleaseLock GET_TOKEN_SILENTLY_LOCK_KEY] \<and>
     filter is_acquire (calls_during s s') = []"
  using assms getTokenSilently_try_eq[OF try_hit[OF assms(1)], of ev]
  by (auto simp: releaseLock_def calls_during_def)

theorem cache_hit_releases_without_acquire_witness:
  "cached_access_token client_plain no_opts hit_state = Some ''at1'' \<and>
   fst (getTokenSilently example_env client_plain no_opts hit_state) = Inr (Some ''at1'') \<and>
   filter is_release
     (calls_during hit_state (snd (getTokenSilently example_env client_plain no_opts hit_state)))
     = [ReleaseLock GET_TOKEN_SILENTLY_LOCK_KEY] \<and>
   filter is_acquire
     (calls_during hit_state (snd (getTokenSilently example_env client_plain no_opts hit_state)))
     = []"
  using cache_hit_releases_without_acquire[OF plain_hit, of example_env
      "fst (getTokenSilently example_env client_plain no_opts hit_state)"
      "snd (getTokenSilently example_env client_plain no_opts hit_state)"]
    plain_hit
  by simp

section \<open>The cache hit\<close>

text \<open>
  C5. With \<open>ignoreCache\<close> false, when the cache holds a Credential Record for the
  call's \<open>(client_id, audience, scope)\<close> that expires more than 60 seconds from now,
  \<open>getTokenSilently\<close> returns the record's access token, makes no token request, does
  not acquire the lock, and leaves the cache as it was. By \<open>credential_cache_read\<close>
  every record this read finds in a cache the operations have filled is a Credential
  Record.
\<close>

theorem cache_hit_returns_cached_token:
  assumes "\<not> ignoreCache_of opts"
    and "cache s (getTokenSilently_cache_key cl opts) = Some rec"
    and "is_credential_record rec"
    and "now s + 60 < cr_expiresAt rec"
    and "getTokenSilently ev cl opts s = (r, s')"
  shows "r = Inr (ce_access_token (cr_entry rec)) \<and>
     filter is_token_request (calls_during s s') = [] \<and>
     filter is_acquire (calls_during s s') = [] \<and>
     cache s' = cache s"
proof -
  have t: "truthy (ce_access_token (cr_entry rec))"
    using assms(3) by (simp add: is_credential_record_def)
  obtain tok where tok: "ce_access_token (cr_entry rec) = Some tok"
    using truthy_Some[OF t] by blast
  have "cached_access_token cl opts s = Some tok"
    using cached_hit[OF assms(1,2,4) t] tok by simp
  from getTokenSilently_try_eq[OF try_hit[OF this], of ev] assms(5)
  show ?thesis
    using tok by (auto simp: releaseLock_def calls_during_def)
qed

theorem cache_hit_returns_cached_token_witness:
  "\<not> ignoreCache_of no_opts \<and>
   cache hit_state (getTokenSilently_cache_key client_plain no_opts) =
     Some \<lparr> cr_entry = fresh_entry, cr_expiresAt = 87400 \<rparr> \<and>
   is_credential_record \<lparr> cr_entry = fresh_entry, cr_expiresAt = 87400 \<rparr> \<and>
   now hit_state + 60 < 87400 \<and>
   fst (getTokenSilently example_env client_plain no_opts hit_state) = Inr (Some ''at1'') \<and>
   filter is_token_request
     (calls_during hit_state (snd (getTokenSilently example_env client_plain no_opts hit_state)))
     = [] \<and>
   filter is_acquire
     (calls_during hit_state (snd (getTokenSilently example_env client_plain no_opts hit_state)))
     = [] \<and>
   cache (snd (getTokenSilently example_env client_plain no_opts hit_state)) = cache hit_state"
  using cache_hit_returns_cached_token[OF no_opts_use_cache, of hit_state client_plain
      "\<lparr> cr_entry = fresh_entry, cr_expiresAt = 87400 \<rparr>" example_env
      "fst (getTokenSilently example_env client_plain no_opts hit_state)"
      "snd (getTokenSilently example_env client_plain no_opts hit_state)"]
    no_opts_use_cache
  by (simp add: plain_key hit_record hit_now fresh_entry_def truthy_def
      is_credential_record_def)

section \<open>The redirect callback\<close>

text \<open>
  C4. A callback URL whose state names a live transaction, that carries no error, and
  whose code the token endpoint and the verifier accept: the first
  \<open>handleRedirectCallback\<close> returns the transaction's \<open>appState\<close> and removes the
  transaction; the second one on the same URL fails with \<open>Invalid state\<close> and changes
  nothing.
\<close>

theorem callback_twice_invalid_state:
  assumes "queryStringFragments url \<noteq> []"
    and "parseQueryResult ev (concat (queryStringFragments url)) = q"
    and "qr_state q = Some st"
    and "transactions s st = Some tx"
    and "\<not> truthy (qr_error q)"
    and "oauthToken ev (code_exchange_request cl q tx) = Inr resp"
    and "verify_id_token ev cl (tr_id_token resp) (Some (tx_nonce tx)) = Inr dec"
    and "handleRedirectCallback ev cl url s = (r1, s1)"
    and "handleRedirectCallback ev cl url s1 = (r2, s2)"
  shows "r1 = Inr (tx_appState tx) \<and> transactions s1 st = None \<and>
         r2 = Inl InvalidStateError \<and> s2 = s1"
proof -
  have "exchange_code ev cl q tx s = (r1, s1)"
    using callback_success_step[OF assms(1,2,4,3,5), of cl] assms(8) by simp
  from exchange_code_success[OF assms(3,6,7) this]
  have first: "r1 = Inr (tx_appState tx)" "transactions s1 st = None" by simp_all
  from callback_missing_transaction[OF assms(1,2,3) first(2), of cl] assms(9)
  have "r2 = Inl InvalidStateError" "s2 = s1" by simp_all
  with first show ?thesis by simp
qed

theorem callback_twice_invalid_state_witness:
  "queryStringFragments code_url \<noteq> [] \<and>
   transactions callback_state ''xyz'' = Some example_transaction \<and>
   fst (handleRedirectCallback example_env client_plain code_url callback_state) =
     Inr (Some ''/dashboard'') \<and>
   transactions (snd (handleRedirectCallback example_env client_plain code_url callback_state))
     ''xyz'' = None \<and>
   fst (handleRedirectCallback example_env client_plain code_url
          (snd (handleRedirectCallback example_env client_plain code_url callback_state))) =
     Inl InvalidStateError"
  using callback_twice_invalid_state[OF url_fragments(1) parsed_code _ live_transaction _
      code_exchange_ok verify_ok,
      of "fst (handleRedirectCallback example_env client_plain code_url callback_state)"
         "snd (handleRedirectCallback example_env client_plain code_url callback_state)"
         "fst (handleRedirectCallback example_env client_plain code_url
            (snd (handleRedirectCallback example_env client_plain code_url callback_state)))"
         "snd (handleRedirectCallback example_env client_plain code_url
            (snd (handleRedirectCallback example_env client_plain code_url callback_state)))"]
    url_fragments(1) live_transaction
  by (simp add: no_query_def example_transaction_def truthy_def)

text \<open>
  C6, amended. A callback URL whose query carries a non-empty \<open>error\<close> and whose state
  names a live transaction: \<open>handleRedirectCallback\<close> removes the transaction, makes no
  external call (so no token request), leaves the cache and the Authenticated Flag as
  they were, and fails with an \<open>AuthenticationError\<close> that carries the error, its
  description, the state and the transaction's \<open>appState\<close>.
\<close>

theorem callback_error_deletes_transaction:
  assumes "queryStringFragments url \<noteq> []"
    and "parseQueryResult ev (concat (queryStringFragments url)) = q"
    and "qr_state q = Some st"
    and "transactions s st = Some tx"
    and "qr_error q = Some e"
    and "e \<noteq> []"
    and "handleRedirectCallback ev cl url s = (r, s')"
  shows "r = Inl (AuthenticationError e (qr_error_description q) (Some st) (tx_appState tx)) \<and>
         transactions s' st = None \<and>
         filter is_token_request (calls_during s s') = [] \<and>
         calls s' = calls s \<and> cache s' = cache s \<and> storage s' = storage s"
  using callback_error_step[OF assms(1-6), of cl] assms(7)
  by (auto simp: calls_during_def)

theorem callback_error_deletes_transaction_witness:
  "queryStringFragments error_url \<noteq> [] \<and>
   transactions callback_state ''xyz'' = Some example_transaction \<and>
   fst (handleRedirectCallback example_env client_plain error_url callback_state) =
     Inl (AuthenticationError ''access_denied'' (Some ''denied'') (Some ''xyz'')
            (Some ''/dashboard'')) \<and>
   transactions (snd (handleRedirectCallback example_env client_plain error_url callback_state))
     ''xyz'' = None \<and>
   calls (snd (handleRedirectCallback example_env client_plain error_url callback_state)) =
     calls callback_state"
  using callback_error_deletes_transaction[OF url_fragments(2) parsed_error _ live_transaction,
      of "''access_denied''" client_plain
      "fst (handleRedirectCallback example_env client_plain error_url callback_state)"
      "snd (handleRedirectCallback example_env client_plain error_url callback_state)"]
    url_fragments(2) live_transaction
  by (simp add: no_query_def example_transaction_def)

text \<open>
  C6 as stated fails: the query carries an \<open>error\<close> parameter that is empty and the
  state names a live transaction, and \<open>handleRedirectCallback\<close> sends a token request;
  the error it ends with is the token endpoint's.
\<close>

theorem empty_error_counterexample:
  "queryStringFragments empty_error_url \<noteq> [] \<and>
   qr_error (parseQueryResult example_env (concat (queryStringFragments empty_error_url))) =
     Some [] \<and>
   transaction_get callback_state
     (qr_state (parseQueryResult example_env (concat (queryStringFragments empty_error_url)))) =
     Some example_transaction \<and>
   fst (handleRedirectCallback example_env client_plain empty_error_url callback_state) =
     Inl (Error ''invalid_request'') \<and>
   length (filter is_token_request
     (calls_during callback_state
        (snd (handleRedirectCallback example_env client_plain empty_error_url callback_state))))
     = 1"
proof -
  have run: "handleRedirectCallback example_env client_plain empty_error_url callback_state =
      exchange_code example_env client_plain
        (no_query\<lparr> qr_state := Some ''xyz'', qr_error := Some [] \<rparr>) example_transaction
        callback_state"
    using url_fragments(3)
    by (simp add: handleRedirectCallback_def parsed_empty_error transaction_get_def
        live_transaction no_query_def)
  have ex: "exchange_code example_env client_plain
        (no_query\<lparr> qr_state := Some ''xyz'', qr_error := Some [] \<rparr>) example_transaction
        callback_state =
      (Inl (Error ''invalid_request''),
       callback_state\<lparr> transactions := (transactions callback_state)(''xyz'' := None),
          calls := calls callback_state @
            [TokenRequest (code_exchange_request client_plain
               (no_query\<lparr> qr_state := Some ''xyz'', qr_error := Some [] \<rparr>)
               example_transaction)] \<rparr>)"
    by (simp add: exchange_code_def call_oauthToken_def transaction_remove_def no_query_def
        example_env_def example_endpoint_def code_exchange_request_def)
  show ?thesis
    using url_fragments(3)
    by (simp add: run ex parsed_empty_error transaction_get_def live_transaction
        calls_during_def)
qed

section \<open>Logout\<close>

text \<open>
  C7. \<open>logout\<close> with \<open>federated\<close> and \<open>localOnly\<close> both true fails with the
  configuration error and returns the state it was given: the cache and the
  Authenticated Flag are untouched.
\<close>

theorem logout_both_flags_fails_first:
  assumes "lo_federated opts" and "lo_localOnly opts"
  shows "logout ev cl opts s = (Inl ConfigurationError, s)"
  using assms by (simp add: logout_def)

theorem logout_both_flags_fails_first_witness:
  "lo_federated both_flags \<and> lo_localOnly both_flags \<and>
   logout example_env client_plain both_flags session_state =
     (Inl ConfigurationError, session_state)"
  using logout_both_flags_fails_first[of both_flags example_env client_plain session_state]
  by (simp add: both_flags_def)

section \<open>Scopes in the cache key\<close>

text \<open>
  C8. A client configured with the scope \<open>read:orders\<close>, and a call that asks for
  \<open>write:orders\<close>: \<open>getTokenSilently\<close> and \<open>getIdTokenClaims\<close> use the union of the
  default, the client's and the call's scope in the cache key; \<open>getUser\<close> leaves the
  client's scope out, and misses the record the other two find.
\<close>

theorem getUser_key_omits_client_scope:
  "getTokenSilently_cache_key client_scoped orders_opts =
     (''cid'', Some ''default'', Some ''openid profile email read:orders write:orders'') \<and>
   getIdTokenClaims_cache_key client_scoped (Some orders_read) =
     getTokenSilently_cache_key client_scoped orders_opts \<and>
   getUser_cache_key client_scoped (Some orders_read) =
     (''cid'', Some ''default'', Some ''openid profile email write:orders'') \<and>
   fst (getTokenSilently example_env client_scoped orders_opts orders_state) =
     Inr (Some ''at1'') \<and>
   getIdTokenClaims client_scoped (Some orders_read) orders_state = Some ''sub=alice'' \<and>
   getUser client_scoped (Some orders_read) orders_state = None"
proof -
  have h: "cached_access_token client_scoped orders_opts orders_state = Some ''at1''"
    by (simp add: cached_access_token_def cache_get_def scoped_key orders_state_def
        cache_save_def key_of_def fresh_entry_def empty_state_def ignoreCache_of_def
        truthy_def)
      (simp add: orders_opts_def no_opts_def)
  have g: "getTokenSilently example_env client_scoped orders_opts orders_state =
      (Inr (Some ''at1''), releaseLock GET_TOKEN_SILENTLY_LOCK_KEY orders_state)"
    by (intro getTokenSilently_try_eq try_hit h)
  have u: "getUser client_scoped (Some orders_read) orders_state = None"
    by (simp add: getUser_def scoped_user_key cache_get_def orders_state_def cache_save_def
        key_of_def fresh_entry_def empty_state_def)
  have c: "getIdTokenClaims client_scoped (Some orders_read) orders_state = Some ''sub=alice''"
    by (simp add: getIdTokenClaims_def scoped_claims_key cache_get_def orders_state_def
        cache_save_def key_of_def fresh_entry_def empty_state_def example_decoded_def)
  show ?thesis
    by (simp add: g u c scoped_key scoped_claims_key scoped_user_key)
qed

end
